theory Spec2Isabelle
  imports Main "HOL-Library.Word"
begin

section \<open>Data model of \<open>xcore/image_handler.h\<close>\<close>

text \<open>
  A \<open>SmartPtr<T>\<close> is a nullable reference: \<open>None\<close> is the null pointer
  (\<open>ptr ()\<close> returns \<open>NULL\<close>), \<open>Some x\<close> refers to the object \<open>x\<close>. Two smart
  pointers denote the same item exactly when they are equal.
\<close>

type_synonym 'a SmartPtr = "'a option"

type_synonym u8 = "8 word"
type_synonym u32 = "32 word"

text \<open>
  \<open>ImageHandler::Parameters\<close>: the two buffers and the private list \<open>_metas\<close>
  (a \<open>MetaBaseList\<close>, that is a \<open>std::list\<close> of \<open>SmartPtr<MetaBase>\<close>). A data member
  that the source writes with a leading underscore is written here with the prefix
  \<open>m_\<close>.
\<close>

record ('b, 'm) Parameters =
  in_buf :: "'b SmartPtr"
  out_buf :: "'b SmartPtr"
  m_metas :: "'m SmartPtr list"

text \<open>The constructor \<open>Parameters (in, out)\<close>: the list starts empty.\<close>

definition new_Parameters :: "'b SmartPtr \<Rightarrow> 'b SmartPtr \<Rightarrow> ('b, 'm) Parameters" where
  "new_Parameters i out = \<lparr>in_buf = i, out_buf = out, m_metas = []\<rparr>"

subsection \<open>\<open>add_meta\<close>\<close>

text \<open>
  \<open>add_meta\<close> returns \<open>false\<close> on a null pointer and leaves the object alone; otherwise
  it does \<open>_metas.push_back (meta)\<close> and returns \<open>true\<close>. The model returns the result
  together with the updated parameters.
\<close>

definition add_meta :: "'m SmartPtr \<Rightarrow> ('b, 'm) Parameters \<Rightarrow> bool \<times> ('b, 'm) Parameters" where
  "add_meta meta p =
     (if meta = None then (False, p)
      else (True, p\<lparr>m_metas := m_metas p @ [meta]\<rparr>))"

subsection \<open>\<open>find_meta\<close>\<close>

text \<open>
  Modelled from the spec: \<open>SmartPtr\<close> and its member \<open>dynamic_cast_ptr<MType>\<close> are
  declared in a header that is not part of the sources at hand. The specification calls
  the cast a capability lookup: an item is retrieved by the type it satisfies. The
  template parameter \<open>MType\<close> is a parameter of the model, the predicate that holds of the
  objects whose dynamic type is \<open>MType\<close> or derives from it. The cast of a smart pointer
  is null when the pointer is null or the object fails the test, and refers to the same
  object otherwise.
\<close>

definition dynamic_cast_ptr :: "('m \<Rightarrow> bool) \<Rightarrow> 'm SmartPtr \<Rightarrow> 'm SmartPtr" where
  "dynamic_cast_ptr MType p =
     (case p of None \<Rightarrow> None | Some x \<Rightarrow> (if MType x then Some x else None))"

text \<open>The loop over \<open>_metas.begin ()\<close> .. \<open>_metas.end ()\<close>, with its early return.\<close>

fun find_meta_loop :: "('m \<Rightarrow> bool) \<Rightarrow> 'm SmartPtr list \<Rightarrow> 'm SmartPtr" where
  "find_meta_loop MType [] = None"
| "find_meta_loop MType (i # rest) =
     (let m = dynamic_cast_ptr MType i
      in if m \<noteq> None then m else find_meta_loop MType rest)"

definition find_meta :: "('m \<Rightarrow> bool) \<Rightarrow> ('b, 'm) Parameters \<Rightarrow> 'm SmartPtr" where
  "find_meta MType p = find_meta_loop MType (m_metas p)"

text \<open>A sequence of \<open>add_meta\<close> calls on one parameter object, results dropped.\<close>

definition add_metas :: "'m SmartPtr list \<Rightarrow> ('b, 'm) Parameters \<Rightarrow> ('b, 'm) Parameters" where
  "add_metas items p = foldl (\<lambda>q meta. snd (add_meta meta q)) p items"


section \<open>The stage: \<open>ImageHandler\<close>\<close>

text \<open>
  \<open>VideoBufferInfo\<close> and \<open>VideoBufferPlanarInfo\<close> are declared in a header that is not
  part of the sources at hand; the records hold the members that the code reads
  (\<open>info.components\<close>, \<open>info.strides [index]\<close>, \<open>info.offsets [index]\<close>, and
  \<open>planar.width\<close>, \<open>planar.height\<close>, \<open>planar.pixel_bytes\<close>). The two arrays are lists, as
  long as the arrays are.
\<close>

record VideoBufferInfo =
  components :: u32
  strides :: "u32 list"
  offsets :: "u32 list"

record VideoBufferPlanarInfo =
  width :: u32
  height :: u32
  pixel_bytes :: u32

text \<open>\<open>#define XCAM_DEFAULT_HANDLER_BUF_CAP 4\<close>\<close>

definition XCAM_DEFAULT_HANDLER_BUF_CAP :: u32 where
  "XCAM_DEFAULT_HANDLER_BUF_CAP = 4"

text \<open>
  The data members of \<open>class ImageHandler\<close>, in the order of the header. \<open>'c\<close> is the
  type of callback objects and \<open>'p\<close> the state of a buffer pool; \<open>_name\<close> is a
  \<open>char *\<close> and may be null.
\<close>

record ('c, 'p) ImageHandler =
  m_need_configure :: bool
  m_enable_allocator :: bool
  m_callback :: "'c SmartPtr"
  m_out_video_info :: VideoBufferInfo
  m_allocator :: "'p SmartPtr"
  m_buf_capacity :: u32
  m_name :: "string option"

text \<open>The two inline members \<open>set_callback\<close> and \<open>get_callback\<close>.\<close>

definition set_callback ::
  "'c SmartPtr \<Rightarrow> ('c, 'p, 'z) ImageHandler_scheme \<Rightarrow> bool \<times> ('c, 'p, 'z) ImageHandler_scheme" where
  "set_callback cb h = (True, h\<lparr>m_callback := cb\<rparr>)"

definition get_callback :: "('c, 'p, 'z) ImageHandler_scheme \<Rightarrow> 'c SmartPtr" where
  "get_callback h = m_callback h"

subsection \<open>Status codes\<close>

text \<open>
  Modelled from the spec: the enumeration \<open>XCamReturn\<close> is declared in a header that is not
  part of the sources at hand. The test program names \<open>XCAM_RETURN_NO_ERROR\<close>,
  \<open>XCAM_RETURN_BYPASS\<close> (the benign end of stream) and \<open>XCAM_RETURN_ERROR_FILE\<close>; the other
  constructors are the error taxonomy of the specification: invalid parameter, resource
  exhausted, configuration failed, invalid state, and the failure code of a stage's own
  algorithm, which is opaque to this layer.
\<close>

datatype XCamReturn =
    XCAM_RETURN_NO_ERROR
  | XCAM_RETURN_BYPASS
  | XCAM_RETURN_ERROR_FILE
  | INVALID_PARAMETER
  | RESOURCE_EXHAUSTED
  | CONFIGURATION_FAILED
  | INVALID_STATE
  | ALGORITHM_FAILURE nat

subsection \<open>Lifecycle and extension points\<close>

text \<open>
  Modelled from the spec: the bodies of \<open>execute_buffer\<close>, \<open>finish\<close>, \<open>terminate\<close>,
  \<open>enable_allocator\<close>, \<open>execute_status_check\<close>, \<open>configure_rest\<close> and \<open>get_free_buf\<close> are
  in a source file that is not at hand; the header declares them. The definitions of this
  subsection and the next ones follow the specification's description of the processing
  stage.

  The specification's lifecycle has three states. \<open>Unconfigured\<close> and \<open>Configured\<close> are
  told apart by the member \<open>_need_configure\<close>; for \<open>Terminated\<close> the header has no member,
  and the stage record extends the members of the header by a flag \<open>terminated\<close>. It also
  carries the invocations whose work is enqueued and not yet known to be complete
  (\<open>pending\<close>, oldest first), and the state \<open>derived\<close> of the concrete stage, which the
  extension points read and update.
\<close>

record ('c, 'p, 'b, 'm, 'd) Stage = "('c, 'p) ImageHandler" +
  terminated :: bool
  pending :: "('b, 'm) Parameters list"
  derived :: 'd



text \<open>
  Modelled from the spec: what the work routine of a concrete stage has done when it
  returns. Either the work is finished, with its status, or the routine has only enqueued
  the work with an asynchronous facility and returned, with success, before completion.
\<close>

datatype work_outcome = Finished XCamReturn | Enqueued

text \<open>
  Modelled from the spec: the three extension points of a concrete stage
  (\<open>configure_resource\<close>, \<open>create_allocator\<close>, \<open>start_work\<close>, pure virtual in the header),
  the two operations consumed from the external buffer pool, \<open>reserve\<close> and \<open>get_buffer\<close>,
  and \<open>completion\<close>, the status with which enqueued work turns out to have finished or
  failed, as the context that detects the completion observes it. They are parameters of
  the model.
\<close>

record ('b, 'm, 'p, 'd) StageOps =
  configure_resource :: "('b, 'm) Parameters \<Rightarrow> 'd \<Rightarrow> XCamReturn \<times> 'd"
  create_allocator :: "'d \<Rightarrow> 'p SmartPtr \<times> 'd"
  start_work :: "('b, 'm) Parameters \<Rightarrow> 'd \<Rightarrow> work_outcome \<times> 'd"
  completion :: "('b, 'm) Parameters \<Rightarrow> 'd \<Rightarrow> XCamReturn \<times> 'd"
  reserve :: "VideoBufferInfo \<Rightarrow> u32 \<Rightarrow> 'p \<Rightarrow> bool \<times> 'p"
  get_buffer :: "'p \<Rightarrow> 'b SmartPtr \<times> 'p"

subsection \<open>Completion callback\<close>

text \<open>
  Modelled from the spec: a call of \<open>Callback::execute_status (handler, params, error)\<close>
  is an event; the events of a call of the entry point are returned as a list, in the
  order in which they happen. The handler argument is the stage itself and is left out.
  \<open>execute_status_check\<close> invokes the registered callback, and does nothing when none is
  registered.
\<close>

record ('c, 'b, 'm) CallbackEvent =
  ev_callback :: 'c
  ev_params :: "('b, 'm) Parameters SmartPtr"
  ev_error :: XCamReturn

definition execute_status_check ::
  "('b, 'm) Parameters SmartPtr \<Rightarrow> XCamReturn \<Rightarrow> ('c, 'p, 'b, 'm, 'd) Stage \<Rightarrow> ('c, 'b, 'm) CallbackEvent list" where
  "execute_status_check params error h =
     (case m_callback h of
        None \<Rightarrow> []
      | Some cb \<Rightarrow> [\<lparr>ev_callback = cb, ev_params = params, ev_error = error\<rparr>])"


subsection \<open>Setters\<close>

text \<open>
  Modelled from the spec: \<open>enable_allocator (enable, buf_count)\<close> stores the switch and the
  capacity.
\<close>

definition enable_allocator ::
  "bool \<Rightarrow> u32 \<Rightarrow> ('c, 'p, 'z) ImageHandler_scheme \<Rightarrow> bool \<times> ('c, 'p, 'z) ImageHandler_scheme" where
  "enable_allocator enable buf_count h =
     (True, h\<lparr>m_enable_allocator := enable, m_buf_capacity := buf_count\<rparr>)"

text \<open>
  The declaration in the header gives \<open>buf_count\<close> the default argument
  \<open>XCAM_DEFAULT_HANDLER_BUF_CAP\<close>: this is the call \<open>enable_allocator (enable)\<close>, without
  a capacity.
\<close>

definition enable_allocator_default ::
  "bool \<Rightarrow> ('c, 'p, 'z) ImageHandler_scheme \<Rightarrow> bool \<times> ('c, 'p, 'z) ImageHandler_scheme" where
  "enable_allocator_default enable h = enable_allocator enable XCAM_DEFAULT_HANDLER_BUF_CAP h"

subsection \<open>Configuration\<close>



subsection \<open>The entry point\<close>





subsection \<open>Drain and teardown\<close>

text \<open>
  Modelled from the spec: the drain of \<open>finish\<close>, which waits for the work of each of the
  given pending invocations, oldest first, and hands each status to
  \<open>execute_status_check\<close>.
\<close>

fun drain ::
  "('b, 'm, 'p, 'd) StageOps \<Rightarrow> ('b, 'm) Parameters list \<Rightarrow> ('c, 'p, 'b, 'm, 'd) Stage \<Rightarrow>
   ('c, 'p, 'b, 'm, 'd) Stage \<times> ('c, 'b, 'm) CallbackEvent list" where
  "drain ops [] h = (h, [])"
| "drain ops (p # ps) h =
     (case completion ops p (derived h) of
        (ret, d) \<Rightarrow>
          (case drain ops ps (h\<lparr>derived := d\<rparr>) of
             (h', evs) \<Rightarrow> (h', execute_status_check (Some p) ret h @ evs)))"

text \<open>
  Modelled from the spec: \<open>finish\<close> emits the pending completions before it returns, and
  succeeds; with nothing pending it changes nothing. The result is the status, the stage
  and the callback events.
\<close>

definition finish ::
  "('b, 'm, 'p, 'd) StageOps \<Rightarrow> ('c, 'p, 'b, 'm, 'd) Stage \<Rightarrow>
   XCamReturn \<times> ('c, 'p, 'b, 'm, 'd) Stage \<times> ('c, 'b, 'm) CallbackEvent list" where
  "finish ops h =
     (case drain ops (pending h) h of
        (h', evs) \<Rightarrow> (XCAM_RETURN_NO_ERROR, h'\<lparr>pending := []\<rparr>, evs))"

text \<open>
  Modelled from the spec: \<open>terminate\<close> releases the private allocator, if any, moves the
  stage to \<open>Terminated\<close> and succeeds.
\<close>

definition terminate ::
  "('c, 'p, 'b, 'm, 'd) Stage \<Rightarrow> XCamReturn \<times> ('c, 'p, 'b, 'm, 'd) Stage" where
  "terminate h = (XCAM_RETURN_NO_ERROR, h\<lparr>m_allocator := None, terminated := True\<rparr>)"

subsection \<open>Runs\<close>

text \<open>
  What happens to one stage, in order: calls of the entry point, each with its parameters
  and its synchronous flag, and completions that the completion context detects. A run
  gives the statuses returned by the calls, the callback events in order, and the stage
  at the end.
\<close>

datatype ('b, 'm) step =
    is_Call: Call "('b, 'm) Parameters SmartPtr" bool
  | Completion nat


section \<open>The test program: \<open>ensure_gpu_buffer_done\<close>\<close>

text \<open>
  The mapped memory of the buffer is the list of its bytes. An access outside an array
  or outside the mapped memory is undefined behaviour in the source; the model stops
  there with the result \<open>None\<close>.
\<close>

definition array_at :: "'a list \<Rightarrow> u32 \<Rightarrow> 'a option" where
  "array_at a index = (if unat index < length a then Some (a ! unat index) else None)"

definition mem_valid :: "u8 list \<Rightarrow> int \<Rightarrow> bool" where
  "mem_valid memory mem_idx = (0 \<le> mem_idx \<and> mem_idx < int (length memory))"

text \<open>The statement \<open>if (memory[mem_idx] == 1) { memory[mem_idx] = 1; }\<close> at a valid index.\<close>

definition store_back :: "u8 list \<Rightarrow> int \<Rightarrow> u8 list" where
  "store_back memory mem_idx =
     (if memory ! nat mem_idx = 1 then memory[nat mem_idx := 1] else memory)"

lemma u32_succ: "(i::u32) < n \<Longrightarrow> unat (i + 1) = Suc (unat i)"
proof -
  assume "i < n"
  then have "unat i < unat n" by (simp add: word_less_nat_alt)
  moreover have "unat n < 2 ^ 32" using unsigned_less [of n, where ?'a = nat] by simp
  ultimately have "unat i + unat (1::u32) < 2 ^ LENGTH(32)" by simp
  then have "unat (i + 1) = unat i + unat (1::u32)" by (simp only: unat_add_lem)
  then show ?thesis by simp
qed

text \<open>
  The inner loop over the rows \<open>i\<close> of one plane. The index is computed in \<open>uint32_t\<close>
  and then converted to \<open>int\<close>.
\<close>

function rows_loop ::
  "VideoBufferInfo \<Rightarrow> VideoBufferPlanarInfo \<Rightarrow> u32 \<Rightarrow> u32 \<Rightarrow> u32 \<Rightarrow> u8 list \<Rightarrow> u8 list option" where
  "rows_loop info planar index line_bytes i memory =
     (if i < height planar then
        (case (array_at (offsets info) index, array_at (strides info) index) of
           (Some off, Some stride) \<Rightarrow>
             (let mem_idx = sint (off + i * stride + line_bytes - 1) in
              if \<not> mem_valid memory mem_idx then None
              else rows_loop info planar index line_bytes (i + 1) (store_back memory mem_idx))
         | _ \<Rightarrow> None)
      else Some memory)"
  by pat_completeness auto
termination
  by (relation "measure (\<lambda>(info, planar, index, line_bytes, i, memory). unat (height planar) - unat i)")
     (auto simp: u32_succ word_less_nat_alt)

text \<open>
  The outer loop over the planes. \<open>get_planar_info (planar, index)\<close> is a member of
  \<open>VideoBufferInfo\<close> that is not part of the sources at hand: it is a parameter of the
  model, which turns the variable \<open>planar\<close> into its new value.
\<close>

function components_loop ::
  "(VideoBufferInfo \<Rightarrow> VideoBufferPlanarInfo \<Rightarrow> u32 \<Rightarrow> VideoBufferPlanarInfo) \<Rightarrow>
   VideoBufferInfo \<Rightarrow> VideoBufferPlanarInfo \<Rightarrow> u32 \<Rightarrow> u8 list \<Rightarrow> u8 list option" where
  "components_loop get_planar_info info planar index memory =
     (if index < components info then
        (let planar' = get_planar_info info planar index;
             line_bytes = width planar' * pixel_bytes planar'
         in case rows_loop info planar' index line_bytes 0 memory of
              None \<Rightarrow> None
            | Some memory' \<Rightarrow> components_loop get_planar_info info planar' (index + 1) memory')
      else Some memory)"
  by pat_completeness auto
termination
  by (relation "measure (\<lambda>(get_planar_info, info, planar, index, memory). unat (components info) - unat index)")
     (auto simp: u32_succ word_less_nat_alt)

text \<open>
  \<open>ensure_gpu_buffer_done\<close>: \<open>planar\<close> is the default-constructed variable, \<open>memory\<close>
  the bytes that \<open>buf->map ()\<close> gives access to. The result is the memory after the call.
\<close>

definition ensure_gpu_buffer_done ::
  "(VideoBufferInfo \<Rightarrow> VideoBufferPlanarInfo \<Rightarrow> u32 \<Rightarrow> VideoBufferPlanarInfo) \<Rightarrow>
   VideoBufferPlanarInfo \<Rightarrow> VideoBufferInfo \<Rightarrow> u8 list \<Rightarrow> u8 list option" where
  "ensure_gpu_buffer_done get_planar_info planar info memory =
     components_loop get_planar_info info planar 0 memory"

section \<open>Example inputs\<close>

text \<open>
  Metadata objects for concrete runs are pairs of the name of their class and a number
  that tells them apart; \<open>DevicePose\<close> is the capability of the pose samples that the
  test program attaches.
\<close>

definition DevicePose :: "string \<times> nat \<Rightarrow> bool" where
  "DevicePose m = (fst m = ''DevicePose'')"

text \<open>A handler with no callback but the given one, and a capacity other than the default.\<close>

abbreviation example_handler :: "nat SmartPtr \<Rightarrow> (nat, nat list) ImageHandler" where
  "example_handler cb \<equiv>
     \<lparr>m_need_configure = True, m_enable_allocator = True, m_callback = cb,
      m_out_video_info = \<lparr>components = 2, strides = [2, 2], offsets = [0, 4]\<rparr>,
      m_allocator = None, m_buf_capacity = 1, m_name = Some ''stabilizer''\<rparr>"

text \<open>
  A small stage for concrete runs. Its resource configuration fails on the first attempt
  and succeeds afterwards; its pool is the list of its free buffers; its work routine
  finishes the work, with success, unless the parameters bring the output buffer 5, in
  which case it enqueues the work, which later fails.
\<close>

abbreviation example_stage :: "nat SmartPtr \<Rightarrow> (nat, nat list, nat, string \<times> nat, nat) Stage" where
  "example_stage cb \<equiv>
     \<lparr>m_need_configure = True, m_enable_allocator = True, m_callback = cb,
      m_out_video_info = \<lparr>components = 2, strides = [2, 2], offsets = [0, 4]\<rparr>,
      m_allocator = None, m_buf_capacity = 1, m_name = Some ''stabilizer'',
      terminated = False, pending = [], derived = 0\<rparr>"

abbreviation example_ops :: "(nat, string \<times> nat, nat list, nat) StageOps" where
  "example_ops \<equiv>
     \<lparr>configure_resource = (\<lambda>p d. (if d = 0 then CONFIGURATION_FAILED else XCAM_RETURN_NO_ERROR, Suc d)),
      create_allocator = (\<lambda>d. (Some [], d)),
      start_work = (\<lambda>p d. (if out_buf p = Some 5 then Enqueued else Finished XCAM_RETURN_NO_ERROR, d)),
      completion = (\<lambda>p d. (ALGORITHM_FAILURE 3, d)),
      reserve = (\<lambda>info count pool. (True, [10 ..< 10 + unat count])),
      get_buffer = (\<lambda>pool. case pool of [] \<Rightarrow> (None, []) | b # bs \<Rightarrow> (Some b, bs))\<rparr>"





section \<open>The metadata container\<close>

lemma find_meta_loop_none:
  "(\<forall>i \<in> set ms. dynamic_cast_ptr MType i = None) \<Longrightarrow> find_meta_loop MType ms = None"
  by (induction ms) simp_all

lemma find_meta_loop_skip:
  "(\<forall>i \<in> set pre. dynamic_cast_ptr MType i = None) \<Longrightarrow>
   find_meta_loop MType (pre @ ms) = find_meta_loop MType ms"
  by (induction pre) simp_all

lemma find_meta_loop_hit:
  "MType x \<Longrightarrow> find_meta_loop MType (Some x # post) = Some x"
  by (simp add: dynamic_cast_ptr_def)

lemma find_meta_loop_Some:
  "find_meta_loop MType ms = Some x \<Longrightarrow>
   \<exists>pre post. ms = pre @ Some x # post \<and> MType x \<and>
     (\<forall>i \<in> set pre. dynamic_cast_ptr MType i = None)"
proof (induction ms)
  case Nil
  then show ?case by simp
next
  case (Cons i ms)
  show ?case
  proof (cases "dynamic_cast_ptr MType i")
    case None
    with Cons.prems have "find_meta_loop MType ms = Some x" by simp
    from Cons.IH [OF this] obtain pre post where
      d: "ms = pre @ Some x # post" "MType x"
         "\<forall>j \<in> set pre. dynamic_cast_ptr MType j = None" by blast
    from d None have "i # ms = (i # pre) @ Some x # post \<and> MType x \<and>
        (\<forall>j \<in> set (i # pre). dynamic_cast_ptr MType j = None)" by simp
    then show ?thesis by blast
  next
    case (Some y)
    with Cons.prems have y: "y = x" by simp
    from Some have "i = Some y \<and> MType y"
      by (auto simp: dynamic_cast_ptr_def split: option.splits if_splits)
    with y have "i # ms = [] @ Some x # ms \<and> MType x \<and>
        (\<forall>j \<in> set []. dynamic_cast_ptr MType j = None)" by simp
    then show ?thesis by blast
  qed
qed

lemma find_meta_loop_append:
  "find_meta_loop MType (ms @ ns) =
     (case find_meta_loop MType ms of None \<Rightarrow> find_meta_loop MType ns | Some e \<Rightarrow> Some e)"
  by (induction ms) (simp_all add: Let_def split: option.splits)

lemma add_metas_metas:
  "m_metas (add_metas items p) = m_metas p @ filter (\<lambda>m. m \<noteq> None) items"
  unfolding add_metas_def
  by (induction items arbitrary: p) (simp_all add: add_meta_def)

text \<open>
  C3. Adding a null item returns failure and leaves the container (the whole parameter
  object) unchanged; adding a non-null item returns success and appends the item at the
  end of the sequence, the buffers being untouched.
\<close>

theorem add_meta_null_or_append:
  "add_meta None p = (False, p) \<and>
   fst (add_meta (Some x) p) = True \<and>
   m_metas (snd (add_meta (Some x) p)) = m_metas p @ [Some x] \<and>
   in_buf (snd (add_meta (Some x) p)) = in_buf p \<and>
   out_buf (snd (add_meta (Some x) p)) = out_buf p"
  by (simp add: add_meta_def)

theorem add_meta_null_or_append_witness:
  "add_meta None \<lparr>in_buf = Some (0::nat), out_buf = None, m_metas = [Some (''DevicePose'', 1::nat)]\<rparr>
     = (False, \<lparr>in_buf = Some 0, out_buf = None, m_metas = [Some (''DevicePose'', 1)]\<rparr>) \<and>
   add_meta (Some (''SyncMeta'', 2)) \<lparr>in_buf = Some (0::nat), out_buf = None, m_metas = [Some (''DevicePose'', 1::nat)]\<rparr>
     = (True, \<lparr>in_buf = Some 0, out_buf = None,
               m_metas = [Some (''DevicePose'', 1), Some (''SyncMeta'', 2)]\<rparr>)"
  using add_meta_null_or_append
    [of "\<lparr>in_buf = Some (0::nat), out_buf = None, m_metas = [Some (''DevicePose'', 1::nat)]\<rparr>"
        "(''SyncMeta'', 2)"]
  by (simp add: add_meta_def)

text \<open>
  C4. \<open>find_meta\<close> scans the list in insertion order: when no attached item matches the
  capability the result is null; when the list is \<open>pre @ Some x # post\<close>, with \<open>x\<close> matching
  and nothing in \<open>pre\<close> matching, the result is \<open>x\<close>, whatever follows; and every non-null
  result arises in this way, so it is the earliest matching item.
\<close>

theorem find_meta_first_match:
  "((\<forall>i \<in> set (m_metas p). dynamic_cast_ptr MType i = None) \<longrightarrow> find_meta MType p = None) \<and>
   (m_metas p = pre @ Some x # post \<and> MType x \<and>
      (\<forall>i \<in> set pre. dynamic_cast_ptr MType i = None) \<longrightarrow> find_meta MType p = Some x) \<and>
   (find_meta MType p = Some y \<longrightarrow>
      (\<exists>pre' post'. m_metas p = pre' @ Some y # post' \<and> MType y \<and>
         (\<forall>i \<in> set pre'. dynamic_cast_ptr MType i = None)))"
proof (intro conjI impI)
  assume "\<forall>i \<in> set (m_metas p). dynamic_cast_ptr MType i = None"
  then show "find_meta MType p = None"
    by (simp add: find_meta_def find_meta_loop_none)
next
  assume a: "m_metas p = pre @ Some x # post \<and> MType x \<and>
      (\<forall>i \<in> set pre. dynamic_cast_ptr MType i = None)"
  then have "find_meta_loop MType (pre @ Some x # post) = find_meta_loop MType (Some x # post)"
    using find_meta_loop_skip [of pre MType "Some x # post"] by blast
  also from a have "\<dots> = Some x"
    using find_meta_loop_hit [of MType x post] by blast
  finally show "find_meta MType p = Some x"
    using a by (simp add: find_meta_def)
next
  assume "find_meta MType p = Some y"
  then have "find_meta_loop MType (m_metas p) = Some y"
    by (simp add: find_meta_def)
  then show "\<exists>pre' post'. m_metas p = pre' @ Some y # post' \<and> MType y \<and>
         (\<forall>i \<in> set pre'. dynamic_cast_ptr MType i = None)"
    by (rule find_meta_loop_Some)
qed

theorem find_meta_first_match_witness:
  "find_meta DevicePose
     \<lparr>in_buf = Some (0::nat), out_buf = None,
      m_metas = [Some (''SyncMeta'', 7::nat), Some (''DevicePose'', 1), Some (''DevicePose'', 2)]\<rparr>
     = Some (''DevicePose'', 1) \<and>
   find_meta DevicePose
     \<lparr>in_buf = Some (0::nat), out_buf = None, m_metas = [Some (''SyncMeta'', 7::nat)]\<rparr> = None"
  using find_meta_first_match
    [of "\<lparr>in_buf = Some (0::nat), out_buf = None,
          m_metas = [Some (''SyncMeta'', 7::nat), Some (''DevicePose'', 1), Some (''DevicePose'', 2)]\<rparr>"
        DevicePose "[Some (''SyncMeta'', 7)]" "(''DevicePose'', 1)"
        "[Some (''DevicePose'', 2)]" "(''DevicePose'', 1)"]
    find_meta_first_match
    [of "\<lparr>in_buf = Some (0::nat), out_buf = None, m_metas = [Some (''SyncMeta'', 7::nat)]\<rparr>"
        DevicePose "[]" "(''DevicePose'', 1)" "[]" "(''DevicePose'', 1)"]
  by (simp add: dynamic_cast_ptr_def DevicePose_def)

text \<open>
  C5, as stated, fails: \<open>add_meta\<close> followed by \<open>find_meta\<close> with the capability of the
  added item does not return that item when an item attached earlier has the same
  capability. Here a second pose sample is added after a first one.
\<close>

theorem add_then_find_counterexample:
  "find_meta DevicePose
     (snd (add_meta (Some (''DevicePose'', 2::nat))
        \<lparr>in_buf = Some (0::nat), out_buf = None, m_metas = [Some (''DevicePose'', 1)]\<rparr>))
   \<noteq> Some (''DevicePose'', 2)"
  by (simp add: find_meta_def add_meta_def dynamic_cast_ptr_def DevicePose_def)

text \<open>
  C5, amended. For every container and every non-null item \<open>x\<close> with the capability
  \<open>MType\<close>, \<open>add_meta\<close> followed by \<open>find_meta\<close> returns the earliest attached item with
  that capability: the added item when \<open>find_meta\<close> found none before the addition, and
  otherwise the item that \<open>find_meta\<close> found before.
\<close>

theorem add_then_find_earliest:
  assumes "MType x"
  shows "find_meta MType (snd (add_meta (Some x) p)) =
           (case find_meta MType p of None \<Rightarrow> Some x | Some earlier \<Rightarrow> Some earlier)"
proof -
  have "m_metas (snd (add_meta (Some x) p)) = m_metas p @ [Some x]"
    by (simp add: add_meta_def)
  then have "find_meta MType (snd (add_meta (Some x) p)) =
      (case find_meta_loop MType (m_metas p) of
         None \<Rightarrow> find_meta_loop MType [Some x] | Some e \<Rightarrow> Some e)"
    by (simp only: find_meta_def find_meta_loop_append)
  moreover from assms have "find_meta_loop MType [Some x] = Some x"
    by (rule find_meta_loop_hit)
  ultimately show ?thesis
    by (simp only: find_meta_def)
qed

theorem add_then_find_earliest_witness:
  "find_meta DevicePose
     (snd (add_meta (Some (''DevicePose'', 2::nat))
        \<lparr>in_buf = Some (0::nat), out_buf = None, m_metas = [Some (''SyncMeta'', 7)]\<rparr>))
   = Some (''DevicePose'', 2)"
  using add_then_find_earliest
    [of DevicePose "(''DevicePose'', 2::nat)"
        "\<lparr>in_buf = Some (0::nat), out_buf = None, m_metas = [Some (''SyncMeta'', 7)]\<rparr>"]
  by (simp add: find_meta_def dynamic_cast_ptr_def DevicePose_def)

text \<open>
  C6. Whatever pointers, null ones included, are passed to \<open>add_meta\<close> one after the
  other on freshly constructed parameters, no element of the stored list is null.
\<close>

theorem metas_never_null:
  "None \<notin> set (m_metas (add_metas items (new_Parameters i out)))"
  by (simp add: add_metas_metas new_Parameters_def)

theorem metas_never_null_witness:
  "None \<notin> set (m_metas (add_metas [Some (''DevicePose'', 1::nat), None, Some (''SyncMeta'', 2)]
     (new_Parameters (Some (0::nat)) None))) \<and>
   m_metas (add_metas [Some (''DevicePose'', 1::nat), None, Some (''SyncMeta'', 2)]
     (new_Parameters (Some (0::nat)) None)) = [Some (''DevicePose'', 1), Some (''SyncMeta'', 2)]"
  using metas_never_null
    [of "[Some (''DevicePose'', 1::nat), None, Some (''SyncMeta'', 2)]" "Some (0::nat)" None]
  by (simp add: add_metas_metas new_Parameters_def)

section \<open>The registered callback\<close>

text \<open>
  C7. The stage has one member for the callback. Of two successive registrations the
  later one succeeds (the result is \<open>true\<close>) and is the one that \<open>get_callback\<close> returns
  afterwards, and the stage is the one that the later registration alone produces.
\<close>

theorem set_callback_replaces:
  "fst (set_callback cb2 (snd (set_callback cb1 h))) = True \<and>
   get_callback (snd (set_callback cb2 (snd (set_callback cb1 h)))) = cb2 \<and>
   snd (set_callback cb2 (snd (set_callback cb1 h))) = snd (set_callback cb2 h)"
  by (simp add: set_callback_def get_callback_def)

theorem set_callback_replaces_witness:
  "set_callback (Some 8) (snd (set_callback (Some 7) (example_handler None))) =
     (True, example_handler (Some 8)) \<and>
   get_callback (snd (set_callback (Some 8) (snd (set_callback (Some 7) (example_handler None))))) =
     Some 8"
  using set_callback_replaces [of "Some 8" "Some 7" "example_handler None"]
  by (simp add: set_callback_def get_callback_def)

section \<open>The self-allocation switch\<close>

text \<open>
  C9. Enabling (or disabling) self-allocation without a capacity argument sets the buffer
  capacity of the stage to 4, the value of \<open>XCAM_DEFAULT_HANDLER_BUF_CAP\<close>: the call is the
  one with the capacity 4.
\<close>

theorem enable_allocator_default_capacity:
  "m_buf_capacity (snd (enable_allocator_default enable h)) = 4 \<and>
   enable_allocator_default enable h = enable_allocator enable 4 h"
  by (simp add: enable_allocator_default_def enable_allocator_def XCAM_DEFAULT_HANDLER_BUF_CAP_def)

theorem enable_allocator_default_capacity_witness:
  "m_buf_capacity (example_handler None) = 1 \<and>
   m_buf_capacity (snd (enable_allocator_default True (example_handler None))) = 4"
  using enable_allocator_default_capacity [of True "example_handler None"]
  by (simp add: enable_allocator_def)



section \<open>Drain and teardown\<close>

text \<open>
  C8. \<open>finish\<close> and \<open>terminate\<close> return the success status in every state of the stage.
\<close>

theorem finish_terminate_succeed:
  "fst (finish ops h) = XCAM_RETURN_NO_ERROR \<and> fst (terminate h) = XCAM_RETURN_NO_ERROR"
  by (simp add: finish_def terminate_def split: prod.splits)

theorem finish_terminate_succeed_witness:
  "fst (finish example_ops (snd (terminate (example_stage (Some 7))))) = XCAM_RETURN_NO_ERROR \<and>
   fst (terminate (snd (terminate (example_stage (Some 7))))) = XCAM_RETURN_NO_ERROR"
  using finish_terminate_succeed [of example_ops "snd (terminate (example_stage (Some 7)))"]
  by simp





section \<open>Completion notification\<close>















section \<open>The buffer check of the test program\<close>

lemma store_back_same: "store_back memory mem_idx = memory"
proof (cases "memory ! nat mem_idx = 1")
  case True
  then have "memory[nat mem_idx := 1] = memory[nat mem_idx := memory ! nat mem_idx]" by simp
  also have "\<dots> = memory" by (rule list_update_id)
  finally show ?thesis by (simp add: store_back_def)
next
  case False
  then show ?thesis by (simp add: store_back_def)
qed

lemma rows_loop_frame:
  "rows_loop info planar index line_bytes i memory = None \<or>
   rows_loop info planar index line_bytes i memory = Some memory"
proof (induction info planar index line_bytes i memory rule: rows_loop.induct)
  case (1 info planar index line_bytes i memory)
  show ?case
  proof (cases "i < height planar")
    case False
    then show ?thesis by (subst (1 2) rows_loop.simps) simp
  next
    case True
    note lt = this
    show ?thesis
    proof (cases "array_at (offsets info) index")
      case None
      with lt show ?thesis by (subst rows_loop.simps) simp
    next
      case (Some off)
      note o = this
      show ?thesis
      proof (cases "array_at (strides info) index")
        case None
        with lt o show ?thesis by (subst rows_loop.simps) simp
      next
        case (Some stride)
        note s = this
        show ?thesis
        proof (cases "mem_valid memory (sint (off + i * stride + line_bytes - 1))")
          case False
          with lt o s show ?thesis by (subst rows_loop.simps) simp
        next
          case True
          have step: "rows_loop info planar index line_bytes i memory =
              rows_loop info planar index line_bytes (i + 1) memory"
            using lt o s True by (subst rows_loop.simps) (simp add: store_back_same)
          have "rows_loop info planar index line_bytes (i + 1)
                  (store_back memory (sint (off + i * stride + line_bytes - 1))) = None \<or>
                rows_loop info planar index line_bytes (i + 1)
                  (store_back memory (sint (off + i * stride + line_bytes - 1))) =
                Some (store_back memory (sint (off + i * stride + line_bytes - 1)))"
            using "1.IH" lt o s True by simp
          then show ?thesis by (simp only: step store_back_same)
        qed
      qed
    qed
  qed
qed

lemma components_loop_frame:
  "components_loop get_planar_info info planar index memory = None \<or>
   components_loop get_planar_info info planar index memory = Some memory"
proof (induction get_planar_info info planar index memory rule: components_loop.induct)
  case (1 get_planar_info info planar index memory)
  let ?planar = "get_planar_info info planar index"
  let ?line_bytes = "width ?planar * pixel_bytes ?planar"
  show ?case
  proof (cases "index < components info")
    case False
    then show ?thesis by (subst (1 2) components_loop.simps) simp
  next
    case True
    note lt = this
    from rows_loop_frame [of info ?planar index ?line_bytes 0 memory] show ?thesis
    proof
      assume "rows_loop info ?planar index ?line_bytes 0 memory = None"
      with lt show ?thesis by (subst components_loop.simps) (simp add: Let_def)
    next
      assume r: "rows_loop info ?planar index ?line_bytes 0 memory = Some memory"
      with lt have step: "components_loop get_planar_info info planar index memory =
          components_loop get_planar_info info ?planar (index + 1) memory"
        by (subst components_loop.simps) (simp add: Let_def)
      from "1.IH" [OF lt refl refl r] show ?thesis by (simp only: step)
    qed
  qed
qed

text \<open>
  A run completes, with the memory it was given, when every plane has its entry in the two
  arrays and every index that the loops compute lies in the mapped memory.
\<close>

lemma rows_loop_completes:
  assumes "array_at (offsets info) index = Some off"
    and "array_at (strides info) index = Some stride"
    and "\<forall>j. j < height planar \<longrightarrow>
           mem_valid memory (sint (off + j * stride + line_bytes - 1))"
  shows "rows_loop info planar index line_bytes i memory = Some memory"
  using assms
proof (induction info planar index line_bytes i memory rule: rows_loop.induct)
  case (1 info planar index line_bytes i memory)
  show ?case
  proof (cases "i < height planar")
    case False
    then show ?thesis by (subst rows_loop.simps) simp
  next
    case True
    with "1.prems" have v: "mem_valid memory (sint (off + i * stride + line_bytes - 1))"
      by blast
    have "rows_loop info planar index line_bytes (i + 1)
            (store_back memory (sint (off + i * stride + line_bytes - 1))) =
          Some (store_back memory (sint (off + i * stride + line_bytes - 1)))"
      using "1.IH" True v "1.prems" by (simp add: store_back_same)
    with True v "1.prems" show ?thesis
      by (subst rows_loop.simps) (simp add: store_back_same)
  qed
qed

lemma components_loop_completes:
  assumes "\<forall>k p. k < components info \<longrightarrow>
     (\<exists>off stride. array_at (offsets info) k = Some off \<and>
        array_at (strides info) k = Some stride \<and>
        (\<forall>j. j < height (get_planar_info info p k) \<longrightarrow>
           mem_valid memory (sint (off + j * stride +
             width (get_planar_info info p k) * pixel_bytes (get_planar_info info p k) - 1))))"
  shows "components_loop get_planar_info info planar index memory = Some memory"
  using assms
proof (induction get_planar_info info planar index memory rule: components_loop.induct)
  case (1 get_planar_info info planar index memory)
  let ?planar = "get_planar_info info planar index"
  let ?line_bytes = "width ?planar * pixel_bytes ?planar"
  show ?case
  proof (cases "index < components info")
    case False
    then show ?thesis by (subst components_loop.simps) simp
  next
    case True
    with "1.prems" obtain off stride where
      a: "array_at (offsets info) index = Some off" "array_at (strides info) index = Some stride"
        "\<forall>j. j < height ?planar \<longrightarrow> mem_valid memory (sint (off + j * stride + ?line_bytes - 1))"
      by blast
    have r: "rows_loop info ?planar index ?line_bytes 0 memory = Some memory"
      using a by (rule rows_loop_completes)
    from "1.IH" [OF True refl refl r] "1.prems"
    have "components_loop get_planar_info info ?planar (index + 1) memory = Some memory"
      by blast
    with True r show ?thesis
      by (subst components_loop.simps) (simp add: Let_def)
  qed
qed

lemma ensure_gpu_buffer_done_completes:
  assumes "\<forall>k p. k < components info \<longrightarrow>
     (\<exists>off stride. array_at (offsets info) k = Some off \<and>
        array_at (strides info) k = Some stride \<and>
        (\<forall>j. j < height (get_planar_info info p k) \<longrightarrow>
           mem_valid memory (sint (off + j * stride +
             width (get_planar_info info p k) * pixel_bytes (get_planar_info info p k) - 1))))"
  shows "ensure_gpu_buffer_done get_planar_info planar info memory = Some memory"
  unfolding ensure_gpu_buffer_done_def using assms by (rule components_loop_completes)

text \<open>
  C10. \<open>ensure_gpu_buffer_done\<close> leaves the mapped memory as it is: a run that stays
  inside the arrays and the mapped memory ends with every byte at its value from before
  the call (the other runs stop at an access that is undefined behaviour), and the one
  statement that writes stores 1 over a byte that is 1, so that it changes nothing.
\<close>

theorem ensure_gpu_buffer_done_frame:
  "(ensure_gpu_buffer_done get_planar_info planar info memory = Some memory \<or>
    ensure_gpu_buffer_done get_planar_info planar info memory = None) \<and>
   store_back memory mem_idx = memory"
  using components_loop_frame [of get_planar_info info planar 0 memory]
  by (auto simp: ensure_gpu_buffer_done_def store_back_same)

theorem ensure_gpu_buffer_done_frame_witness:
  "ensure_gpu_buffer_done
     (\<lambda>info planar index.
        if index = 0 then \<lparr>width = 2, height = 2, pixel_bytes = 1\<rparr>
        else \<lparr>width = 1, height = 1, pixel_bytes = 2\<rparr>)
     \<lparr>width = 0, height = 0, pixel_bytes = 0\<rparr>
     \<lparr>components = 2, strides = [2, 2], offsets = [0, 4]\<rparr>
     [0, 1, 5, 1, 9, 1] = Some [0, 1, 5, 1, 9, 1] \<and>
   store_back [0, 1, 5, 1, 9, 1] 3 = [0, 1, 5, 1, 9, 1]"
  using ensure_gpu_buffer_done_frame
    [of "\<lambda>info planar index.
        if index = 0 then \<lparr>width = 2, height = 2, pixel_bytes = 1\<rparr>
        else \<lparr>width = 1, height = 1, pixel_bytes = 2\<rparr>"
        "\<lparr>width = 0, height = 0, pixel_bytes = 0\<rparr>"
        "\<lparr>components = 2, strides = [2, 2], offsets = [0, 4]\<rparr>"
        "[0, 1, 5, 1, 9, 1]" 3]
  by (simp add: ensure_gpu_buffer_done_def array_at_def mem_valid_def store_back_def)

end
